theory Spec2Isabelle
  imports Main "HOL-Library.Word"
begin

unbundle bit_operations_syntax

section \<open>Bytes, slices and the Go runtime operations the sequencer uses\<close>

type_synonym byte = "8 word"

text \<open>
  Failures of the package \<open>common\<close>. The Go code returns errors built with
  \<open>fmt.Errorf\<close>; each call site gets a constructor of its own, carrying the value the
  message prints. A Go panic (a slice expression out of range, a nil pointer dereferenced)
  is not a returned error: the two panic constructors keep it apart, and \<open>is_panic\<close>
  recognises them.
\<close>

datatype error =
    ErrInvalidToIdx "64 word"
  | ErrInvalidFromIdx "64 word"
  | ErrNilToForgeL1TxsNum
  | ErrNilBatchNum
  | ErrL1TxBytesLength nat
  | ErrL1CoordinatorTxBytesLength nat
  | ErrIdxBytesLength nat
  | ErrIdxOverflow
  | ErrHashToSign
  | ErrEcrecover
  | ErrUnmarshalPubkey
  | ErrAccountAlreadyExists
  | ErrNotFound
  | PanicSliceBounds
  | PanicNilDeref

fun is_panic :: "error \<Rightarrow> bool" where
  "is_panic PanicSliceBounds = True"
| "is_panic PanicNilDeref = True"
| "is_panic _ = False"

text \<open>
  The slice expression \<open>b[lo:hi]\<close> of Go. It panics unless \<open>lo \<le> hi \<le> cap(b)\<close>; a byte
  slice is modelled by the list of its elements, so its capacity is its length.
\<close>

definition slice :: "'a list \<Rightarrow> nat \<Rightarrow> nat \<Rightarrow> 'a list option" where
  "slice b lo hi = (if lo \<le> hi \<and> hi \<le> length b then Some (take (hi - lo) (drop lo b)) else None)"

text \<open>The index expression \<open>b[i]\<close> of Go: it panics when \<open>i\<close> is out of range.\<close>

definition index :: "'a list \<Rightarrow> nat \<Rightarrow> 'a option" where
  "index b i = (if i < length b then Some (b ! i) else None)"

text \<open>
  The builtin \<open>copy(dst, src)\<close>: it overwrites the first \<open>min(len(dst), len(src))\<close>
  elements of \<open>dst\<close>. The value is the destination after the call.
\<close>

definition copy :: "'a list \<Rightarrow> 'a list \<Rightarrow> 'a list" where
  "copy dst src = take (min (length dst) (length src)) src @ drop (min (length dst) (length src)) dst"

text \<open>
  Sequencing. \<open>in_bounds x f\<close> goes on with the value of a slice or index expression
  and panics when it is out of range; \<open>non_nil p f\<close> goes on with the target of a pointer
  and panics on nil; \<open>ok_then r f\<close> is \<open>if err != nil { return nil, Wrap(err) }\<close>.
\<close>

definition in_bounds :: "'a option \<Rightarrow> ('a \<Rightarrow> error + 'b) \<Rightarrow> error + 'b" where
  "in_bounds x f = (case x of None \<Rightarrow> Inl PanicSliceBounds | Some y \<Rightarrow> f y)"

definition non_nil :: "'a option \<Rightarrow> ('a \<Rightarrow> error + 'b) \<Rightarrow> error + 'b" where
  "non_nil p f = (case p of None \<Rightarrow> Inl PanicNilDeref | Some y \<Rightarrow> f y)"

definition ok_then :: "error + 'a \<Rightarrow> ('a \<Rightarrow> error + 'b) \<Rightarrow> error + 'b" where
  "ok_then r f = (case r of Inl e \<Rightarrow> Inl e | Inr y \<Rightarrow> f y)"

text \<open>
  \<open>binary.BigEndian.PutUint64(b, v)\<close>, \<open>PutUint16\<close> and \<open>Uint64\<close> of the Go standard
  library. Each starts with a bounds check (\<open>_ = b[7]\<close>, \<open>_ = b[1]\<close>) that panics on a
  buffer that is too short: \<open>None\<close> here. The value of the two writers is the buffer after
  the call.
\<close>

definition PutUint64 :: "byte list \<Rightarrow> 64 word \<Rightarrow> byte list option" where
  "PutUint64 b v =
     (if length b < 8 then None
      else Some ([ucast (drop_bit 56 v), ucast (drop_bit 48 v), ucast (drop_bit 40 v),
                  ucast (drop_bit 32 v), ucast (drop_bit 24 v), ucast (drop_bit 16 v),
                  ucast (drop_bit 8 v), ucast v] @ drop 8 b))"

definition PutUint16 :: "byte list \<Rightarrow> 16 word \<Rightarrow> byte list option" where
  "PutUint16 b v =
     (if length b < 2 then None
      else Some ([ucast (drop_bit 8 v), ucast v] @ drop 2 b))"

definition Uint64 :: "byte list \<Rightarrow> 64 word option" where
  "Uint64 b =
     (if length b < 8 then None
      else Some (ucast (b ! 7) OR push_bit 8 (ucast (b ! 6)) OR push_bit 16 (ucast (b ! 5))
                 OR push_bit 24 (ucast (b ! 4)) OR push_bit 32 (ucast (b ! 3))
                 OR push_bit 40 (ucast (b ! 2)) OR push_bit 48 (ucast (b ! 1))
                 OR push_bit 56 (ucast (b ! 0))))"

text \<open>
  The big-endian encoding of a number in \<open>k\<close> bytes, as the specification words it
  (\<open>6-byte big-endian\<close>, \<open>8 BE\<close>, \<open>2 BE\<close>): the last byte is the value modulo 256, the
  bytes before it encode the quotient. \<open>be_nat\<close> reads such an encoding back.
\<close>

fun be_bytes :: "nat \<Rightarrow> nat \<Rightarrow> byte list" where
  "be_bytes 0 v = []"
| "be_bytes (Suc k) v = be_bytes k (v div 256) @ [of_nat (v mod 256)]"

definition be_nat :: "byte list \<Rightarrow> nat" where
  "be_nat bs = foldl (\<lambda>acc x. acc * 256 + unat x) 0 bs"

section \<open>Account indexes\<close>

text \<open>
  \<open>type Idx uint64\<close>; the transaction file names the same type \<open>AccountIdx\<close>.
\<close>

type_synonym Idx = "64 word"

definition IdxBytesLen :: nat where
  "IdxBytesLen = 6"

definition maxIdxValue :: Idx where
  "maxIdxValue = 0xffffffffffff"

definition UserThreshold :: nat where
  "UserThreshold = 256"

definition IdxUserThreshold :: Idx where
  "IdxUserThreshold = of_nat UserThreshold"

text \<open>
  \<open>func (idx Idx) Bytes() ([6]byte, error)\<close>: the index must not exceed \<open>maxIdxValue\<close>;
  it is written into an array of eight bytes, of which the last six are copied out.
\<close>

definition Idx_Bytes :: "Idx \<Rightarrow> error + byte list" where
  "Idx_Bytes idx =
     (if idx > maxIdxValue then Inl ErrIdxOverflow
      else
        in_bounds (PutUint64 (replicate 8 0) idx) (\<lambda>idxBytes.
        in_bounds (slice idxBytes 2 (length idxBytes)) (\<lambda>src.
        Inr (copy (replicate 6 0) src))))"

text \<open>
  \<open>func IdxFromBytes(b []byte) (Idx, error)\<close>: exactly six bytes, copied behind two zero
  bytes and read as a big-endian \<open>uint64\<close>.
\<close>

definition IdxFromBytes :: "byte list \<Rightarrow> error + Idx" where
  "IdxFromBytes b =
     (if length b \<noteq> IdxBytesLen then Inl (ErrIdxBytesLength (length b))
      else
        in_bounds (slice (replicate 8 0) 2 8) (\<lambda>dst.
        in_bounds (Uint64 (replicate 2 0 @ copy dst b)) (\<lambda>idx.
        Inr idx)))"

section \<open>Values of the libraries the transaction code calls\<close>

text \<open>
  \<open>(*big.Int).Int64()\<close> and \<open>(*big.Int).Uint64()\<close> of \<open>math/big\<close>: the low 64 bits
  of the absolute value, negated for \<open>Int64\<close> when the number is negative. A
  \<open>*big.Int\<close> is an \<open>int option\<close>, \<open>None\<close> the nil pointer, on which both methods
  panic.
\<close>

definition BigInt_Int64 :: "int \<Rightarrow> 64 word" where
  "BigInt_Int64 x = (if x < 0 then - word_of_int \<bar>x\<bar> else word_of_int \<bar>x\<bar>)"

definition BigInt_Uint64 :: "int \<Rightarrow> 64 word" where
  "BigInt_Uint64 x = word_of_int \<bar>x\<bar>"

text \<open>
  \<open>ethCommon.BytesToAddress\<close> of go-ethereum: an address is twenty bytes; a longer input
  is cropped from the left, a shorter one is right-aligned in a zeroed array.
\<close>

definition AddressLength :: nat where
  "AddressLength = 20"

definition BytesToAddress :: "byte list \<Rightarrow> byte list" where
  "BytesToAddress b =
     (let b' = (if length b > AddressLength then drop (length b - AddressLength) b else b);
          a = replicate AddressLength 0
      in take (AddressLength - length b') a @ copy (drop (AddressLength - length b') a) b')"

text \<open>
  The cryptographic functions of go-ethereum and of the account-creation authorisation
  are not part of the transaction code; it is parametric in them.
  \<open>HashToSign bjj chainID addr\<close> stands for
  \<open>AccountCreationAuth{BJJ: bjj}.HashToSign(chainID, addr)\<close>, \<open>Ecrecover\<close>,
  \<open>UnmarshalPubkey\<close> and \<open>PubkeyToAddress\<close> for the functions of \<open>ethCrypto\<close>.
\<close>

record ethCrypto =
  HashToSign :: "byte list \<Rightarrow> 16 word \<Rightarrow> byte list \<Rightarrow> error + byte list"
  Ecrecover :: "byte list \<Rightarrow> byte list \<Rightarrow> error + byte list"
  UnmarshalPubkey :: "byte list \<Rightarrow> error + byte list"
  PubkeyToAddress :: "byte list \<Rightarrow> byte list"

section \<open>Declarations from other files of the package\<close>

text \<open>
  Modelled from the spec: \<open>RollupConstL1UserTotalBytes\<close> is declared in another file
  of the package. Sections 4.B and 6 fix the L1 user transaction at 78 bytes. (The error
  message of \<open>L1UserTxFromBytes\<close> prints the literal 68.)
\<close>

definition RollupConstL1UserTotalBytes :: nat where
  "RollupConstL1UserTotalBytes = 78"

text \<open>
  Modelled from the spec: \<open>RollupConstL1CoordinatorTotalBytes\<close> is declared in another
  file of the package. Sections 4.B and 6 fix the L1 coordinator transaction at 101 bytes, the
  literal that the error message of \<open>L1CoordinatorTxFromBytes\<close> prints too.
\<close>

definition RollupConstL1CoordinatorTotalBytes :: nat where
  "RollupConstL1CoordinatorTotalBytes = 101"

text \<open>
  Modelled from the spec: the type \<open>TxID\<close> and the prefixes \<open>TxIDPrefixL1UserTx\<close> and
  \<open>TxIDPrefixL1CoordTx\<close> are declared in another file of the package. Section 3.1: a TxID is
  33 bytes, a 1-byte domain prefix followed by 32 bytes of a hash; section 4.B gives the
  prefixes \<open>0x00\<close> and \<open>0x01\<close>, as the comment on the field \<open>TxID\<close> does.
\<close>

definition TxIDLen :: nat where
  "TxIDLen = 33"

definition TxIDPrefixL1UserTx :: byte where
  "TxIDPrefixL1UserTx = 0"

definition TxIDPrefixL1CoordTx :: byte where
  "TxIDPrefixL1CoordTx = 1"

text \<open>
  Modelled from the spec: \<open>SwapEndianness\<close> is defined in another file of the
  package. Section 4.A: byte-reverse.
\<close>

definition SwapEndianness :: "byte list \<Rightarrow> byte list" where
  "SwapEndianness b = rev b"

text \<open>
  Modelled from the spec: the Float40 codec is defined in another file of the package.
  Section 3.1: a 5-byte representation \<open>mantissa * 10 ^ exponent\<close>, the high 5 bits the
  exponent and the low 35 bits the mantissa; decoding is exact. \<open>Float40FromBytes\<close>
  reads the five bytes big-endian; \<open>Float40_BigInt\<close> is the method \<open>BigInt\<close>, whose
  second result is an error that the call sites check.
\<close>

type_synonym Float40 = "40 word"

definition Float40FromBytes :: "byte list \<Rightarrow> Float40" where
  "Float40FromBytes b = of_nat (be_nat b)"

definition Float40_BigInt :: "Float40 \<Rightarrow> error + int" where
  "Float40_BigInt f = Inr (int (unat (take_bit 35 f)) * 10 ^ unat (drop_bit 35 f))"

text \<open>
  The transaction types that \<open>SetType\<close> assigns, and the empty string of a type not yet
  set. The constants are declared in another file of the package; they are taken to be
  distinct.
\<close>

datatype TxType =
    TxTypeUnset
  | TxTypeCreateAccountDeposit
  | TxTypeCreateAccountDepositTransfer
  | TxTypeDeposit
  | TxTypeForceExit
  | TxTypeForceTransfer
  | TxTypeDepositTransfer

section \<open>Accounts\<close>

record Account =
  Idx :: Idx
  BatchNum :: "64 word"
  BJJ :: "byte list"
  Sign :: bool
  Ay :: "int option"
  EthAddr :: "byte list"
  Nonce :: "64 word"
  Balance :: "int option"

section \<open>L1 transactions\<close>

text \<open>
  \<open>type L1Tx struct\<close>. \<open>*int64\<close>, \<open>*BatchNum\<close> and \<open>*big.Int\<close> fields are options,
  \<open>None\<close> the nil pointer; \<open>int64\<close> values are their 64 bits; \<open>Position\<close> is a Go
  \<open>int\<close>; the arrays \<open>TxID\<close>, \<open>FromEthAddr\<close>, \<open>FromBJJ\<close> and \<open>EthTxHash\<close> are the
  lists of their bytes.
\<close>

record L1Tx =
  TxID :: "byte list"
  ToForgeL1TxsNum :: "64 word option"
  Position :: int
  UserOrigin :: bool
  FromIdx :: Idx
  EffectiveFromIdx :: Idx
  FromEthAddr :: "byte list"
  FromBJJ :: "byte list"
  ToIdx :: Idx
  Amount :: "int option"
  EffectiveAmount :: "int option"
  DepositAmount :: "int option"
  EffectiveDepositAmount :: "int option"
  EthBlockNum :: "64 word"
  EthTxHash :: "byte list"
  L1Fee :: "int option"
  Type :: TxType
  BatchNum :: "64 word option"

text \<open>The zero value \<open>L1Tx{}\<close>.\<close>

definition L1Tx_zero :: L1Tx where
  "L1Tx_zero =
     \<lparr>TxID = replicate TxIDLen 0, ToForgeL1TxsNum = None, Position = 0, UserOrigin = False,
      FromIdx = 0, EffectiveFromIdx = 0, FromEthAddr = replicate AddressLength 0,
      FromBJJ = replicate 32 0, ToIdx = 0, Amount = None, EffectiveAmount = None,
      DepositAmount = None, EffectiveDepositAmount = None, EthBlockNum = 0,
      EthTxHash = replicate 32 0, L1Fee = None, Type = TxTypeUnset, BatchNum = None\<rparr>"

text \<open>\<open>func (tx *L1Tx) SetType() error\<close>. The value is the transaction after the call.\<close>

definition SetType :: "L1Tx \<Rightarrow> error + L1Tx" where
  "SetType tx =
     (if FromIdx tx = 0 then
        (if ToIdx tx = 0 then Inr (tx\<lparr>Type := TxTypeCreateAccountDeposit\<rparr>)
         else if ToIdx tx \<ge> IdxUserThreshold then
           Inr (tx\<lparr>Type := TxTypeCreateAccountDepositTransfer\<rparr>)
         else Inl (ErrInvalidToIdx (ToIdx tx)))
      else if FromIdx tx \<ge> IdxUserThreshold then
        (if ToIdx tx = 0 then Inr (tx\<lparr>Type := TxTypeDeposit\<rparr>)
         else if ToIdx tx = 1 then Inr (tx\<lparr>Type := TxTypeForceExit\<rparr>)
         else if ToIdx tx \<ge> IdxUserThreshold then
           non_nil (DepositAmount tx) (\<lambda>d.
             if BigInt_Int64 d = 0 then Inr (tx\<lparr>Type := TxTypeForceTransfer\<rparr>)
             else Inr (tx\<lparr>Type := TxTypeDepositTransfer\<rparr>))
         else Inl (ErrInvalidToIdx (ToIdx tx)))
      else Inl (ErrInvalidFromIdx (FromIdx tx)))"

text \<open>
  \<open>func (tx *L1Tx) SetID() error\<close>, parametric in the hash: \<open>Keccak256Hash b\<close> stands for
  \<open>ethCrypto.Keccak256Hash(b).Bytes()\<close>. The branch on \<open>UserOrigin\<close> writes the prefix
  into \<open>TxID[0]\<close> and starts the hashed bytes \<open>b\<close> from the empty slice; the position
  is appended, converted to \<open>uint16\<close>; the hash is copied into \<open>TxID[1:]\<close>.
\<close>

definition SetID :: "(byte list \<Rightarrow> byte list) \<Rightarrow> L1Tx \<Rightarrow> error + L1Tx" where
  "SetID Keccak256Hash tx =
     ok_then
       (if UserOrigin tx then
          (case ToForgeL1TxsNum tx of
             None \<Rightarrow> Inl ErrNilToForgeL1TxsNum
           | Some n \<Rightarrow>
               in_bounds (PutUint64 (replicate 8 0) n) (\<lambda>toForgeL1TxsNumBytes.
               Inr ((TxID tx)[0 := TxIDPrefixL1UserTx], [] @ toForgeL1TxsNumBytes)))
        else
          (case BatchNum tx of
             None \<Rightarrow> Inl ErrNilBatchNum
           | Some n \<Rightarrow>
               in_bounds (PutUint64 (replicate 8 0) n) (\<lambda>batchNumBytes.
               Inr ((TxID tx)[0 := TxIDPrefixL1CoordTx], [] @ batchNumBytes))))
       (\<lambda>(txid, b).
          in_bounds (PutUint16 (replicate 2 0) (word_of_int (Position tx))) (\<lambda>positionBytes.
          in_bounds (slice txid 1 (length txid)) (\<lambda>dst.
          Inr (tx\<lparr>TxID := take 1 txid @ copy dst (Keccak256Hash (b @ positionBytes))\<rparr>))))"

text \<open>\<open>func L1UserTxFromBytes(b []byte) (*L1Tx, error)\<close>.\<close>

definition L1UserTxFromBytes :: "byte list \<Rightarrow> error + L1Tx" where
  "L1UserTxFromBytes b =
     (if length b \<noteq> RollupConstL1UserTotalBytes then Inl (ErrL1TxBytesLength (length b))
      else
        in_bounds (slice b 0 20) (\<lambda>ethAddrB.
        in_bounds (slice b 20 52) (\<lambda>pkCompB.
        in_bounds (slice b 52 58) (\<lambda>fromIdxB.
        ok_then (IdxFromBytes fromIdxB) (\<lambda>fromIdx.
        in_bounds (slice b 58 63) (\<lambda>depositAmountB.
        ok_then (Float40_BigInt (Float40FromBytes depositAmountB)) (\<lambda>depositAmount.
        in_bounds (slice b 63 68) (\<lambda>amountB.
        ok_then (Float40_BigInt (Float40FromBytes amountB)) (\<lambda>amount.
        in_bounds (slice b 72 78) (\<lambda>toIdxB.
        ok_then (IdxFromBytes toIdxB) (\<lambda>toIdx.
        Inr (L1Tx_zero\<lparr>UserOrigin := True,
               FromEthAddr := BytesToAddress ethAddrB,
               FromBJJ := copy (replicate 32 0) (SwapEndianness pkCompB),
               FromIdx := fromIdx,
               DepositAmount := Some depositAmount,
               Amount := Some amount,
               ToIdx := toIdx\<rparr>))))))))))))"

text \<open>
  \<open>func L1CoordinatorTxFromBytes(b []byte, chainID *big.Int, tokamakAddress
  ethCommon.Address) (*L1Tx, error)\<close>, parametric in the cryptographic functions and in the
  address \<open>RollupConstEthAddressInternalOnly\<close>, a constant declared in another file of
  the package.
\<close>

definition L1CoordinatorTxFromBytes ::
    "ethCrypto \<Rightarrow> byte list \<Rightarrow> byte list \<Rightarrow> int option \<Rightarrow> byte list \<Rightarrow> error + L1Tx" where
  "L1CoordinatorTxFromBytes crypto RollupConstEthAddressInternalOnly b chainID tokamakAddress =
     (if length b \<noteq> RollupConstL1CoordinatorTotalBytes then
        Inl (ErrL1CoordinatorTxBytesLength (length b))
      else
        in_bounds (index b 0) (\<lambda>v.
        in_bounds (slice b 1 33) (\<lambda>s.
        in_bounds (slice b 33 65) (\<lambda>r.
        in_bounds (slice b 65 97) (\<lambda>pkCompB.
          (let tx = L1Tx_zero\<lparr>UserOrigin := False,
                      FromBJJ := copy (replicate 32 0) (SwapEndianness pkCompB),
                      Amount := Some 0,
                      DepositAmount := Some 0\<rparr>
           in if uint v > 0 then
                (let v' = v - 27;
                     signature = (([] @ r) @ s) @ [v']
                 in non_nil chainID (\<lambda>c.
                    ok_then (HashToSign crypto (FromBJJ tx) (ucast (BigInt_Uint64 c)) tokamakAddress) (\<lambda>h.
                    ok_then (Ecrecover crypto h signature) (\<lambda>pubKeyBytes.
                    ok_then (UnmarshalPubkey crypto pubKeyBytes) (\<lambda>pubKey.
                    Inr (tx\<lparr>FromEthAddr := PubkeyToAddress crypto pubKey\<rparr>))))))
              else Inr (tx\<lparr>FromEthAddr := RollupConstEthAddressInternalOnly\<rparr>)))))))"

section \<open>The state database\<close>

text \<open>
  Modelled from the spec: the implementation of \<open>StateDB\<close> is another package, of which
  the test \<open>TestStateDBWithoutMT\<close> shows the use. Section 4.C: \<open>NLevels = 0\<close> means that only
  the key-value store is active, otherwise the account tree is maintained too.
  \<open>CreateAccount(idx, account)\<close> fails with \<open>AccountAlreadyExists\<close> if \<open>idx\<close> is already
  present; it writes to the key-value store and, if the Merkle tree is enabled, to the
  account tree, and returns the insertion proof. \<open>GetAccount(idx)\<close> fails with
  \<open>ErrNotFound\<close> if the account is absent. The tree is the map of its leaves; a proof
  records the index inserted and whether the tree was written.
\<close>

record StateDB =
  NLevels :: nat
  kv :: "Idx \<rightharpoonup> Account"
  accountTree :: "Idx \<rightharpoonup> Account"

datatype CircomProcessorProof = EmptyProof | InsertProof Idx

definition GetAccount :: "StateDB \<Rightarrow> Idx \<Rightarrow> error + Account" where
  "GetAccount sdb idx = (case kv sdb idx of None \<Rightarrow> Inl ErrNotFound | Some a \<Rightarrow> Inr a)"

definition CreateAccount ::
    "StateDB \<Rightarrow> Idx \<Rightarrow> Account \<Rightarrow> (error + CircomProcessorProof) \<times> StateDB" where
  "CreateAccount sdb idx account =
     (case kv sdb idx of
        Some a \<Rightarrow> (Inl ErrAccountAlreadyExists, sdb)
      | None \<Rightarrow>
          (if NLevels sdb = 0 then
             (Inr EmptyProof, sdb\<lparr>kv := (kv sdb)(idx \<mapsto> account)\<rparr>)
           else
             (Inr (InsertProof idx),
              sdb\<lparr>kv := (kv sdb)(idx \<mapsto> account),
                  accountTree := (accountTree sdb)(idx \<mapsto> account)\<rparr>)))"

section \<open>Properties\<close>

subsection \<open>Big-endian encodings\<close>

lemma unat_drop_bit_div: "unat (drop_bit k (v :: 'a::len word)) = unat v div 2 ^ k"
  by (simp only: unat_drop_bit_eq) (rule drop_bit_eq_div)

lemma ucast_byte: "(ucast (v :: 'a::len word) :: byte) = of_nat (unat v mod 256)"
proof -
  have "(ucast v :: byte) = of_nat (unat v)"
    by simp
  also have "\<dots> = of_nat (unat v mod 256)"
    by (simp only: word_of_nat_eq_iff take_bit_eq_mod) simp
  finally show ?thesis .
qed

lemma be_bytes_numeral:
  "be_bytes (numeral k) v = be_bytes (pred_numeral k) (v div 256) @ [of_nat (v mod 256)]"
proof -
  have "be_bytes (Suc (pred_numeral k)) v = be_bytes (pred_numeral k) (v div 256) @ [of_nat (v mod 256)]"
    by (rule be_bytes.simps)
  then show ?thesis
    by (simp only: numeral_eq_Suc [symmetric])
qed

lemma be_bytes_2:
  "be_bytes 2 n = [of_nat ((n div 2 ^ 8) mod 256), of_nat (n mod 256)]"
  by (simp add: be_bytes_numeral)

lemma be_bytes_6:
  "be_bytes 6 n = [of_nat ((n div 2 ^ 40) mod 256), of_nat ((n div 2 ^ 32) mod 256),
     of_nat ((n div 2 ^ 24) mod 256), of_nat ((n div 2 ^ 16) mod 256),
     of_nat ((n div 2 ^ 8) mod 256), of_nat (n mod 256)]"
  by (simp add: be_bytes_numeral div_mult2_eq [symmetric])

lemma be_bytes_8:
  "be_bytes 8 n = [of_nat ((n div 2 ^ 56) mod 256), of_nat ((n div 2 ^ 48) mod 256),
     of_nat ((n div 2 ^ 40) mod 256), of_nat ((n div 2 ^ 32) mod 256),
     of_nat ((n div 2 ^ 24) mod 256), of_nat ((n div 2 ^ 16) mod 256),
     of_nat ((n div 2 ^ 8) mod 256), of_nat (n mod 256)]"
  by (simp add: be_bytes_numeral div_mult2_eq [symmetric])

lemma length_be_bytes: "length (be_bytes k n) = k"
  by (induction k arbitrary: n) simp_all

lemma be_nat_snoc: "be_nat (bs @ [x]) = be_nat bs * 256 + unat x"
  by (simp add: be_nat_def)

lemma be_nat_be_bytes: "n < 256 ^ k \<Longrightarrow> be_nat (be_bytes k n) = n"
proof (induction k arbitrary: n)
  case 0
  then show ?case by (simp add: be_nat_def)
next
  case (Suc k)
  have "n div 256 < 256 ^ k"
    using Suc.prems by (simp add: less_mult_imp_div_less)
  then have "be_nat (be_bytes k (n div 256)) = n div 256"
    by (rule Suc.IH)
  moreover have "unat (of_nat (n mod 256) :: byte) = n mod 256"
    by (simp add: unat_of_nat)
  ultimately show ?case
    by (simp add: be_nat_snoc)
qed

lemma PutUint64_array: "PutUint64 (replicate 8 0) v = Some (be_bytes 8 (unat v))"
  by (simp add: PutUint64_def be_bytes_8 ucast_byte unat_drop_bit_div)

lemma PutUint16_array: "PutUint16 (replicate 2 0) v = Some (be_bytes 2 (unat v))"
  by (simp add: PutUint16_def be_bytes_2 ucast_byte unat_drop_bit_div)

lemma maxIdxValue_less_iff: "maxIdxValue < idx \<longleftrightarrow> 2 ^ 48 - 1 < unat idx"
  by (simp add: maxIdxValue_def word_less_nat_alt)

subsection \<open>Helper lemmas on the transaction functions\<close>

lemma SetType_Type_update: "SetType (tx\<lparr>Type := t\<rparr>) = SetType tx"
  by (simp add: SetType_def non_nil_def split: option.splits)

lemma SetType_Inr: "SetType tx = Inr tx' \<Longrightarrow> tx' = tx\<lparr>Type := Type tx'\<rparr>"
  unfolding SetType_def non_nil_def
  by (auto split: if_splits option.splits)

lemma BigInt_Int64_eq_0_iff: "BigInt_Int64 d = 0 \<longleftrightarrow> d mod 2 ^ 64 = 0"
proof -
  have "BigInt_Int64 d = 0 \<longleftrightarrow> (word_of_int \<bar>d\<bar> :: 64 word) = 0"
    by (simp add: BigInt_Int64_def)
  also have "\<dots> \<longleftrightarrow> 2 ^ 64 dvd \<bar>d\<bar>"
    by (simp add: word_of_int_eq_0_iff)
  also have "\<dots> \<longleftrightarrow> 2 ^ 64 dvd d"
    by (rule dvd_abs_iff)
  also have "\<dots> \<longleftrightarrow> d mod 2 ^ 64 = 0"
    by (simp add: dvd_eq_mod_eq_0)
  finally show ?thesis .
qed

lemma unat_uint16_Position: "unat (word_of_int k :: 16 word) = nat (k mod 65536)"
  by (simp add: unat_eq_nat_uint uint_word_of_int)

lemma replicate_numeral:
  "replicate (numeral k) x = x # replicate (pred_numeral k) x"
proof -
  have "replicate (Suc (pred_numeral k)) x = x # replicate (pred_numeral k) x"
    by (rule replicate_Suc)
  then show ?thesis
    by (simp only: numeral_eq_Suc [symmetric])
qed

lemma push_bit_8_add_byte:
  "push_bit 8 (x :: 'a::len word) + ucast (a :: byte) = push_bit 8 x OR ucast a"
proof (rule disjunctive_add)
  fix n
  show "\<not> bit (push_bit 8 x) n \<or> \<not> bit (ucast a :: 'a word) n"
    by (auto simp: bit_simps dest: bit_imp_le_length)
qed

lemma of_nat_be_nat_snoc:
  "(of_nat (be_nat (bs @ [a])) :: 'a::len word) = push_bit 8 (of_nat (be_nat bs)) OR ucast a"
proof -
  have "(of_nat (be_nat (bs @ [a])) :: 'a word) = of_nat (be_nat bs) * 256 + of_nat (unat a)"
    by (simp add: be_nat_snoc)
  also have "\<dots> = push_bit 8 (of_nat (be_nat bs)) + ucast a"
    by (simp add: push_bit_eq_mult)
  finally show ?thesis
    by (simp only: push_bit_8_add_byte)
qed

lemma list6:
  "length b = 6 \<Longrightarrow> \<exists>a0 a1 a2 a3 a4 a5. b = [a0, a1, a2, a3, a4, a5]"
  by (auto simp: numeral_eq_Suc length_Suc_conv)

lemma be_nat_Nil: "be_nat [] = 0"
  by (simp add: be_nat_def)

lemma of_nat_be_nat_6:
  "(of_nat (be_nat [a0, a1, a2, a3, a4, a5]) :: 64 word) =
     ucast a5 OR push_bit 8 (ucast a4) OR push_bit 16 (ucast a3) OR push_bit 24 (ucast a2)
       OR push_bit 32 (ucast a1) OR push_bit 40 (ucast a0)"
proof -
  have "[a0, a1, a2, a3, a4, a5] = (((((([] @ [a0]) @ [a1]) @ [a2]) @ [a3]) @ [a4]) @ [a5])"
    by simp
  then have "(of_nat (be_nat [a0, a1, a2, a3, a4, a5]) :: 64 word) =
      of_nat (be_nat (((((([] @ [a0]) @ [a1]) @ [a2]) @ [a3]) @ [a4]) @ [a5]))"
    by (rule arg_cong)
  also have "\<dots> = ucast a5 OR push_bit 8 (ucast a4) OR push_bit 16 (ucast a3)
       OR push_bit 24 (ucast a2) OR push_bit 32 (ucast a1) OR push_bit 40 (ucast a0)"
    by (simp only: of_nat_be_nat_snoc be_nat_Nil) (simp add: ac_simps)
  finally show ?thesis .
qed

lemma IdxFromBytes_be:
  assumes "length b = 6"
  shows "IdxFromBytes b = Inr (of_nat (be_nat b))"
proof -
  from assms obtain a0 a1 a2 a3 a4 a5 where b: "b = [a0, a1, a2, a3, a4, a5]"
    using list6 by blast
  have "IdxFromBytes [a0, a1, a2, a3, a4, a5] = Inr (of_nat (be_nat [a0, a1, a2, a3, a4, a5]))"
    by (simp add: IdxFromBytes_def IdxBytesLen_def slice_def in_bounds_def copy_def Uint64_def
        replicate_numeral of_nat_be_nat_6)
  then show ?thesis
    by (simp only: b)
qed

lemma BytesToAddress_20: "length b = 20 \<Longrightarrow> BytesToAddress b = b"
  by (simp add: BytesToAddress_def AddressLength_def copy_def)

lemma copy_same_length: "length dst = length src \<Longrightarrow> copy dst src = src"
  by (simp add: copy_def)

lemma slice_Some: "lo \<le> hi \<Longrightarrow> hi \<le> length b \<Longrightarrow> slice b lo hi = Some (take (hi - lo) (drop lo b))"
  by (simp add: slice_def)

lemma L1UserTxFromBytes_eq:
  "L1UserTxFromBytes b =
     (if length b \<noteq> 78 then Inl (ErrL1TxBytesLength (length b))
      else Inr (L1Tx_zero\<lparr>UserOrigin := True,
             FromEthAddr := take 20 b,
             FromBJJ := SwapEndianness (take 32 (drop 20 b)),
             FromIdx := of_nat (be_nat (take 6 (drop 52 b))),
             DepositAmount :=
               Some (int (unat (take_bit 35 (Float40FromBytes (take 5 (drop 58 b)))))
                     * 10 ^ unat (drop_bit 35 (Float40FromBytes (take 5 (drop 58 b))))),
             Amount :=
               Some (int (unat (take_bit 35 (Float40FromBytes (take 5 (drop 63 b)))))
                     * 10 ^ unat (drop_bit 35 (Float40FromBytes (take 5 (drop 63 b))))),
             ToIdx := of_nat (be_nat (take 6 (drop 72 b)))\<rparr>))"
proof (cases "length b = 78")
  case False
  then show ?thesis
    by (simp add: L1UserTxFromBytes_def RollupConstL1UserTotalBytes_def)
next
  case True
  then show ?thesis
    by (simp add: L1UserTxFromBytes_def RollupConstL1UserTotalBytes_def slice_Some
        in_bounds_def ok_then_def IdxFromBytes_be Float40_BigInt_def BytesToAddress_20
        copy_same_length SwapEndianness_def)
qed

lemma copy_take: "length dst \<le> length src \<Longrightarrow> copy dst src = take (length dst) src"
  by (simp add: copy_def min_def)

lemma TxID_array:
  "length xs = TxIDLen \<Longrightarrow> \<exists>x rest. xs = x # rest \<and> length rest = 32"
  by (cases xs) (simp_all add: TxIDLen_def)

lemma SetID_eq:
  assumes len: "length (TxID tx) = TxIDLen" and h: "\<And>b. 32 \<le> length (H b)"
  shows "SetID H tx =
     (if UserOrigin tx then
        (case ToForgeL1TxsNum tx of
           None \<Rightarrow> Inl ErrNilToForgeL1TxsNum
         | Some n \<Rightarrow>
             Inr (tx\<lparr>TxID := TxIDPrefixL1UserTx #
               take 32 (H (be_bytes 8 (unat n) @ be_bytes 2 (nat (Position tx mod 65536))))\<rparr>))
      else
        (case BatchNum tx of
           None \<Rightarrow> Inl ErrNilBatchNum
         | Some n \<Rightarrow>
             Inr (tx\<lparr>TxID := TxIDPrefixL1CoordTx #
               take 32 (H (be_bytes 8 (unat n) @ be_bytes 2 (nat (Position tx mod 65536))))\<rparr>)))"
proof -
  from len obtain x rest where txid: "TxID tx = x # rest" and rest: "length rest = 32"
    using TxID_array by blast
  have cp: "copy rest (H b) = take 32 (H b)" for b
    using h [of b] rest by (simp add: copy_take)
  show ?thesis
    by (simp add: SetID_def ok_then_def in_bounds_def PutUint64_array PutUint16_array
        unat_uint16_Position slice_def txid rest cp split: option.splits)
qed

lemma uint_byte_pos_iff: "0 < uint (w :: byte) \<longleftrightarrow> w \<noteq> 0"
  by (metis uint_0_iff uint_ge_0 order_less_le)

lemma L1CoordinatorTxFromBytes_eq:
  assumes "length b = 101"
  shows "L1CoordinatorTxFromBytes crypto sentinel b chainID tokamakAddress =
     (let tx = L1Tx_zero\<lparr>UserOrigin := False,
                 FromBJJ := SwapEndianness (take 32 (drop 65 b)),
                 Amount := Some 0,
                 DepositAmount := Some 0\<rparr>
      in if b ! 0 \<noteq> 0 then
           non_nil chainID (\<lambda>c.
           ok_then (HashToSign crypto (SwapEndianness (take 32 (drop 65 b)))
                      (ucast (BigInt_Uint64 c)) tokamakAddress) (\<lambda>h.
           ok_then (Ecrecover crypto h (take 32 (drop 33 b) @ take 32 (drop 1 b) @ [b ! 0 - 27])) (\<lambda>pubKeyBytes.
           ok_then (UnmarshalPubkey crypto pubKeyBytes) (\<lambda>pubKey.
           Inr (tx\<lparr>FromEthAddr := PubkeyToAddress crypto pubKey\<rparr>)))))
         else Inr (tx\<lparr>FromEthAddr := sentinel\<rparr>))"
  using assms
  by (simp add: L1CoordinatorTxFromBytes_def RollupConstL1CoordinatorTotalBytes_def
      index_def slice_Some in_bounds_def copy_same_length SwapEndianness_def Let_def
      uint_byte_pos_iff)

subsection \<open>Serialising an account index\<close>

text \<open>
  C8. \<open>Idx.Bytes\<close> fails with \<open>ErrIdxOverflow\<close> exactly when the index is above
  \<open>2 ^ 48 - 1\<close>, so at \<open>2 ^ 48\<close>, and returns the six-byte big-endian encoding of
  the index otherwise.
\<close>

theorem Idx_Bytes_overflow_iff:
  "Idx_Bytes idx =
     (if 2 ^ 48 - 1 < unat idx then Inl ErrIdxOverflow else Inr (be_bytes 6 (unat idx)))
   \<and> Idx_Bytes (2 ^ 48) = Inl ErrIdxOverflow"
proof -
  have eq: "Idx_Bytes i =
      (if 2 ^ 48 - 1 < unat i then Inl ErrIdxOverflow else Inr (be_bytes 6 (unat i)))" for i
    by (simp add: Idx_Bytes_def maxIdxValue_less_iff PutUint64_array be_bytes_8 be_bytes_6
        slice_def copy_def in_bounds_def)
  have "Idx_Bytes (2 ^ 48) = Inl ErrIdxOverflow"
    by (simp add: Idx_Bytes_def maxIdxValue_def in_bounds_def)
  with eq [of idx] show ?thesis
    by simp
qed

subsection \<open>Type inference\<close>

text \<open>
  What \<open>SetType\<close> computes when \<open>DepositAmount\<close> is set and below \<open>2 ^ 64\<close> in
  absolute value, so that \<open>Int64()\<close> loses nothing: the table of the specification, with
  the errors of the code outside it.
\<close>

lemma IdxUserThreshold_le_iff: "IdxUserThreshold \<le> x \<longleftrightarrow> 256 \<le> unat x"
  by (simp add: IdxUserThreshold_def UserThreshold_def word_le_nat_alt)

lemma Int64_small: "\<bar>d\<bar> < 2 ^ 64 \<Longrightarrow> BigInt_Int64 d = 0 \<longleftrightarrow> d = 0"
proof -
  assume small: "\<bar>d\<bar> < 2 ^ 64"
  have "d mod 2 ^ 64 = 0 \<longleftrightarrow> d = 0"
  proof
    assume "d mod 2 ^ 64 = 0"
    then have "(2 :: int) ^ 64 dvd d"
      by (simp add: dvd_eq_mod_eq_0)
    then have "(2 :: int) ^ 64 dvd \<bar>d\<bar>"
      by simp
    with small show "d = 0"
      using zdvd_not_zless [of "\<bar>d\<bar>" "2 ^ 64"] by fastforce
  qed simp
  then show ?thesis
    by (simp only: BigInt_Int64_eq_0_iff)
qed

lemma SetType_table:
  assumes d: "DepositAmount tx = Some d" and small: "\<bar>d\<bar> < 2 ^ 64"
  shows "SetType tx =
     (if FromIdx tx = 0 \<and> ToIdx tx = 0 then Inr (tx\<lparr>Type := TxTypeCreateAccountDeposit\<rparr>)
      else if FromIdx tx = 0 \<and> 256 \<le> unat (ToIdx tx) then
        Inr (tx\<lparr>Type := TxTypeCreateAccountDepositTransfer\<rparr>)
      else if 256 \<le> unat (FromIdx tx) \<and> ToIdx tx = 0 then Inr (tx\<lparr>Type := TxTypeDeposit\<rparr>)
      else if 256 \<le> unat (FromIdx tx) \<and> ToIdx tx = 1 then Inr (tx\<lparr>Type := TxTypeForceExit\<rparr>)
      else if 256 \<le> unat (FromIdx tx) \<and> 256 \<le> unat (ToIdx tx) \<and> d = 0 then
        Inr (tx\<lparr>Type := TxTypeForceTransfer\<rparr>)
      else if 256 \<le> unat (FromIdx tx) \<and> 256 \<le> unat (ToIdx tx) then
        Inr (tx\<lparr>Type := TxTypeDepositTransfer\<rparr>)
      else if FromIdx tx = 0 \<or> 256 \<le> unat (FromIdx tx) then Inl (ErrInvalidToIdx (ToIdx tx))
      else Inl (ErrInvalidFromIdx (FromIdx tx)))"
proof -
  have z: "BigInt_Int64 0 = 0"
    by (simp add: BigInt_Int64_def)
  have zero: "\<not> 256 \<le> unat (0 :: Idx)" and one: "\<not> 256 \<le> unat (1 :: Idx)"
    by simp_all
  show ?thesis
    using zero one
    by (auto simp: SetType_def non_nil_def d IdxUserThreshold_le_iff Int64_small [OF small] z)
qed

text \<open>
  C1. The table of \<open>SetType\<close> gives \<open>DepositTransfer\<close> for \<open>FromIdx \<ge> 256\<close>,
  \<open>ToIdx \<ge> 256\<close> and a positive \<open>DepositAmount\<close>. The code compares
  \<open>DepositAmount.Int64()\<close> with zero, which keeps the low 64 bits only. The 78 bytes
  below decode to \<open>FromIdx = 256\<close>, \<open>ToIdx = 256\<close> and the positive amount
  \<open>2 ^ 34 * 10 ^ 30\<close> (Float40 mantissa \<open>2 ^ 34\<close>, exponent 30), a multiple of
  \<open>2 ^ 64\<close>, and \<open>SetType\<close> assigns \<open>ForceTransfer\<close> to the decoded transaction.
\<close>

theorem SetType_DepositAmount_truncated:
  "L1UserTxFromBytes (replicate 52 0 @ [0, 0, 0, 0, 1, 0] @ [0xF4, 0, 0, 0, 0]
       @ replicate 5 0 @ replicate 4 0 @ [0, 0, 0, 0, 1, 0])
     = Inr (L1Tx_zero\<lparr>UserOrigin := True, FromIdx := 256,
              DepositAmount := Some (2 ^ 34 * 10 ^ 30), Amount := Some 0, ToIdx := 256\<rparr>)
   \<and> (0 :: int) < 2 ^ 34 * 10 ^ 30
   \<and> SetType (L1Tx_zero\<lparr>UserOrigin := True, FromIdx := 256,
              DepositAmount := Some (2 ^ 34 * 10 ^ 30), Amount := Some 0, ToIdx := 256\<rparr>)
     = Inr (L1Tx_zero\<lparr>UserOrigin := True, FromIdx := 256,
              DepositAmount := Some (2 ^ 34 * 10 ^ 30), Amount := Some 0, ToIdx := 256,
              Type := TxTypeForceTransfer\<rparr>)"
proof -
  have "L1UserTxFromBytes (replicate 52 0 @ [0, 0, 0, 0, 1, 0] @ [0xF4, 0, 0, 0, 0]
       @ replicate 5 0 @ replicate 4 0 @ [0, 0, 0, 0, 1, 0])
     = Inr (L1Tx_zero\<lparr>UserOrigin := True, FromIdx := 256,
              DepositAmount := Some (2 ^ 34 * 10 ^ 30), Amount := Some 0, ToIdx := 256\<rparr>)"
    by (simp add: L1UserTxFromBytes_eq replicate_numeral be_nat_def Float40FromBytes_def
        SwapEndianness_def L1Tx_zero_def AddressLength_def)
  moreover have "SetType (L1Tx_zero\<lparr>UserOrigin := True, FromIdx := 256,
              DepositAmount := Some (2 ^ 34 * 10 ^ 30), Amount := Some 0, ToIdx := 256\<rparr>)
     = Inr (L1Tx_zero\<lparr>UserOrigin := True, FromIdx := 256,
              DepositAmount := Some (2 ^ 34 * 10 ^ 30), Amount := Some 0, ToIdx := 256,
              Type := TxTypeForceTransfer\<rparr>)"
    by (simp add: SetType_def L1Tx_zero_def IdxUserThreshold_def UserThreshold_def
        BigInt_Int64_def non_nil_def)
  ultimately show ?thesis
    by simp
qed

text \<open>
  C7. \<open>SetType\<close> is idempotent: where it succeeds, a second run on the result succeeds
  and returns the result of the first run unchanged.
\<close>

theorem SetType_idempotent:
  "SetType tx = Inr tx' \<Longrightarrow> SetType tx' = Inr tx'"
proof -
  assume ok: "SetType tx = Inr tx'"
  then have "tx' = tx\<lparr>Type := Type tx'\<rparr>"
    by (rule SetType_Inr)
  then have "SetType tx' = SetType (tx\<lparr>Type := Type tx'\<rparr>)"
    by simp
  also have "\<dots> = SetType tx"
    by (rule SetType_Type_update)
  finally show ?thesis
    using ok by simp
qed

theorem SetType_idempotent_witness:
  "SetType (L1Tx_zero\<lparr>FromIdx := 300, ToIdx := 1\<rparr>)
     = Inr (L1Tx_zero\<lparr>FromIdx := 300, ToIdx := 1, Type := TxTypeForceExit\<rparr>)
   \<and> SetType (L1Tx_zero\<lparr>FromIdx := 300, ToIdx := 1, Type := TxTypeForceExit\<rparr>)
     = Inr (L1Tx_zero\<lparr>FromIdx := 300, ToIdx := 1, Type := TxTypeForceExit\<rparr>)"
proof -
  have h: "SetType (L1Tx_zero\<lparr>FromIdx := 300, ToIdx := 1\<rparr>)
     = Inr (L1Tx_zero\<lparr>FromIdx := 300, ToIdx := 1, Type := TxTypeForceExit\<rparr>)"
    by (simp add: SetType_def L1Tx_zero_def IdxUserThreshold_def UserThreshold_def)
  from h SetType_idempotent [OF h] show ?thesis by simp
qed

subsection \<open>Identifiers\<close>

text \<open>
  C4. The TxID is to be the prefix byte followed by the first 32 bytes of the hash of the
  prefix, the number (8 bytes big-endian) and the position (2 bytes big-endian); the
  comment on the field \<open>TxID\<close> too puts the type byte first among the hashed bytes.
  \<open>SetID\<close> starts the hashed slice empty and appends the number and the position only.
  With a hash that returns the first 32 bytes of its zero-padded input, so that the TxID
  shows the hashed bytes, the user transaction with \<open>ToForgeL1TxsNum = 1\<close> and
  \<open>Position = 2\<close> gets the prefix \<open>0x00\<close> followed by the ten bytes of the number and
  the position, which is not the prefix followed by the hash of the eleven bytes that begin
  with the prefix; likewise the coordinator transaction with \<open>BatchNum = 1\<close>, prefix
  \<open>0x01\<close>.
\<close>

theorem SetID_preimage_without_prefix:
  "SetID (\<lambda>b. take 32 (b @ replicate 32 0))
      (L1Tx_zero\<lparr>UserOrigin := True, ToForgeL1TxsNum := Some 1, Position := 2\<rparr>)
    = Inr (L1Tx_zero\<lparr>UserOrigin := True, ToForgeL1TxsNum := Some 1, Position := 2,
             TxID := [0, 0, 0, 0, 0, 0, 0, 0, 1, 0, 2] @ replicate 22 0\<rparr>)
   \<and> SetID (\<lambda>b. take 32 (b @ replicate 32 0))
      (L1Tx_zero\<lparr>UserOrigin := True, ToForgeL1TxsNum := Some 1, Position := 2\<rparr>)
    \<noteq> Inr (L1Tx_zero\<lparr>UserOrigin := True, ToForgeL1TxsNum := Some 1, Position := 2,
             TxID := 0 # take 32 ((\<lambda>b. take 32 (b @ replicate 32 0))
                        (0 # be_bytes 8 1 @ be_bytes 2 2))\<rparr>)
   \<and> SetID (\<lambda>b. take 32 (b @ replicate 32 0))
      (L1Tx_zero\<lparr>BatchNum := Some 1, Position := 2\<rparr>)
    = Inr (L1Tx_zero\<lparr>BatchNum := Some 1, Position := 2,
             TxID := [1, 0, 0, 0, 0, 0, 0, 0, 1, 0, 2] @ replicate 22 0\<rparr>)
   \<and> SetID (\<lambda>b. take 32 (b @ replicate 32 0))
      (L1Tx_zero\<lparr>BatchNum := Some 1, Position := 2\<rparr>)
    \<noteq> Inr (L1Tx_zero\<lparr>BatchNum := Some 1, Position := 2,
             TxID := 1 # take 32 ((\<lambda>b. take 32 (b @ replicate 32 0))
                        (1 # be_bytes 8 1 @ be_bytes 2 2))\<rparr>)"
proof -
  have len1: "length (TxID (L1Tx_zero\<lparr>UserOrigin := True, ToForgeL1TxsNum := Some 1,
      Position := 2\<rparr>)) = TxIDLen"
    and len2: "length (TxID (L1Tx_zero\<lparr>BatchNum := Some 1, Position := 2\<rparr>)) = TxIDLen"
    by (simp_all add: L1Tx_zero_def)
  have h: "32 \<le> length ((\<lambda>b. take 32 (b @ replicate 32 (0 :: byte))) b)" for b
    by simp
  have user: "SetID (\<lambda>b. take 32 (b @ replicate 32 0))
      (L1Tx_zero\<lparr>UserOrigin := True, ToForgeL1TxsNum := Some 1, Position := 2\<rparr>)
    = Inr (L1Tx_zero\<lparr>UserOrigin := True, ToForgeL1TxsNum := Some 1, Position := 2,
             TxID := [0, 0, 0, 0, 0, 0, 0, 0, 1, 0, 2] @ replicate 22 0\<rparr>)"
    using SetID_eq [OF len1 h]
    by (simp add: be_bytes_8 be_bytes_2 replicate_numeral TxIDPrefixL1UserTx_def L1Tx_zero_def)
  have coord: "SetID (\<lambda>b. take 32 (b @ replicate 32 0))
      (L1Tx_zero\<lparr>BatchNum := Some 1, Position := 2\<rparr>)
    = Inr (L1Tx_zero\<lparr>BatchNum := Some 1, Position := 2,
             TxID := [1, 0, 0, 0, 0, 0, 0, 0, 1, 0, 2] @ replicate 22 0\<rparr>)"
    using SetID_eq [OF len2 h]
    by (simp add: be_bytes_8 be_bytes_2 replicate_numeral TxIDPrefixL1CoordTx_def L1Tx_zero_def)
  have user_claimed: "L1Tx_zero\<lparr>UserOrigin := True, ToForgeL1TxsNum := Some 1, Position := 2,
             TxID := [0, 0, 0, 0, 0, 0, 0, 0, 1, 0, 2] @ replicate 22 0\<rparr>
    \<noteq> L1Tx_zero\<lparr>UserOrigin := True, ToForgeL1TxsNum := Some 1, Position := 2,
             TxID := 0 # take 32 ((\<lambda>b. take 32 (b @ replicate 32 0))
                        (0 # be_bytes 8 1 @ be_bytes 2 2))\<rparr>"
    by (simp add: be_bytes_8 be_bytes_2 replicate_numeral L1Tx_zero_def)
  have coord_claimed: "L1Tx_zero\<lparr>BatchNum := Some 1, Position := 2,
             TxID := [1, 0, 0, 0, 0, 0, 0, 0, 1, 0, 2] @ replicate 22 0\<rparr>
    \<noteq> L1Tx_zero\<lparr>BatchNum := Some 1, Position := 2,
             TxID := 1 # take 32 ((\<lambda>b. take 32 (b @ replicate 32 0))
                        (1 # be_bytes 8 1 @ be_bytes 2 2))\<rparr>"
    by (simp add: be_bytes_8 be_bytes_2 replicate_numeral L1Tx_zero_def)
  from user coord user_claimed coord_claimed show ?thesis
    by simp
qed

text \<open>
  C5. \<open>SetID\<close> fails exactly when the identifier it needs is nil: for a transaction of
  user origin iff \<open>ToForgeL1TxsNum\<close> is nil, otherwise iff \<open>BatchNum\<close> is nil. In every
  other case it succeeds and writes the TxID, the prefix byte followed by the first 32
  bytes of the hash of the number and the position, and changes no other field. The array
  \<open>TxID\<close> has its 33 bytes and the hash returns at least 32.
\<close>

theorem SetID_fails_iff_nil:
  assumes "length (TxID tx) = TxIDLen" and "\<And>b. 32 \<le> length (Keccak256Hash b)"
  shows "(UserOrigin tx \<longrightarrow>
            (isl (SetID Keccak256Hash tx) \<longleftrightarrow> ToForgeL1TxsNum tx = None)
          \<and> (ToForgeL1TxsNum tx = None \<longrightarrow> SetID Keccak256Hash tx = Inl ErrNilToForgeL1TxsNum)
          \<and> (\<forall>n. ToForgeL1TxsNum tx = Some n \<longrightarrow>
                 SetID Keccak256Hash tx =
                   Inr (tx\<lparr>TxID := 0 # take 32 (Keccak256Hash
                          (be_bytes 8 (unat n) @ be_bytes 2 (nat (Position tx mod 2 ^ 16))))\<rparr>)))
       \<and> (\<not> UserOrigin tx \<longrightarrow>
            (isl (SetID Keccak256Hash tx) \<longleftrightarrow> BatchNum tx = None)
          \<and> (BatchNum tx = None \<longrightarrow> SetID Keccak256Hash tx = Inl ErrNilBatchNum)
          \<and> (\<forall>n. BatchNum tx = Some n \<longrightarrow>
                 SetID Keccak256Hash tx =
                   Inr (tx\<lparr>TxID := 1 # take 32 (Keccak256Hash
                          (be_bytes 8 (unat n) @ be_bytes 2 (nat (Position tx mod 2 ^ 16))))\<rparr>)))"
  using assms
  by (auto simp: SetID_eq TxIDPrefixL1UserTx_def TxIDPrefixL1CoordTx_def split: option.splits)

theorem SetID_fails_iff_nil_witness:
  "SetID (\<lambda>b. take 32 (b @ replicate 32 0)) (L1Tx_zero\<lparr>UserOrigin := True, BatchNum := Some 3\<rparr>)
     = Inl ErrNilToForgeL1TxsNum
   \<and> SetID (\<lambda>b. take 32 (b @ replicate 32 0)) (L1Tx_zero\<lparr>BatchNum := Some 3, Position := 5\<rparr>)
     = Inr (L1Tx_zero\<lparr>BatchNum := Some 3, Position := 5,
              TxID := [1, 0, 0, 0, 0, 0, 0, 0, 3, 0, 5] @ replicate 22 0\<rparr>)
   \<and> TxID (L1Tx_zero\<lparr>BatchNum := Some 3, Position := 5\<rparr>) = replicate 33 0"
proof -
  have len1: "length (TxID (L1Tx_zero\<lparr>UserOrigin := True, BatchNum := Some 3\<rparr>)) = TxIDLen"
    and len2: "length (TxID (L1Tx_zero\<lparr>BatchNum := Some 3, Position := 5\<rparr>)) = TxIDLen"
    by (simp_all add: L1Tx_zero_def)
  have h: "32 \<le> length ((\<lambda>b. take 32 (b @ replicate 32 (0 :: byte))) b)" for b
    by simp
  show ?thesis
    using SetID_fails_iff_nil [OF len1 h] SetID_fails_iff_nil [OF len2 h]
    by (simp add: L1Tx_zero_def TxIDLen_def be_bytes_8 be_bytes_2 replicate_numeral)
qed

text \<open>
  C6. The TxID is a function of \<open>UserOrigin\<close>, of \<open>ToForgeL1TxsNum\<close> (user origin) or
  \<open>BatchNum\<close> (coordinator), and of \<open>Position\<close>: two transactions that agree on these
  get the same outcome of \<open>SetID\<close>, the same error or the same TxID, whatever their other
  fields hold.
\<close>

theorem SetID_TxID_pure:
  assumes "length (TxID tx1) = TxIDLen" and "length (TxID tx2) = TxIDLen"
    and "\<And>b. 32 \<le> length (Keccak256Hash b)"
    and "UserOrigin tx1 = UserOrigin tx2"
    and "Position tx1 = Position tx2"
    and "if UserOrigin tx1 then ToForgeL1TxsNum tx1 = ToForgeL1TxsNum tx2
         else BatchNum tx1 = BatchNum tx2"
  shows "map_sum id TxID (SetID Keccak256Hash tx1) = map_sum id TxID (SetID Keccak256Hash tx2)"
  using assms
  by (simp add: SetID_eq split: option.splits if_splits)

theorem SetID_TxID_pure_witness:
  "map_sum id TxID (SetID (\<lambda>b. take 32 (b @ replicate 32 0))
      (L1Tx_zero\<lparr>BatchNum := Some 5, Position := 1, FromIdx := 0, ToIdx := 0,
         Amount := Some 0, DepositAmount := Some 10\<rparr>))
   = map_sum id TxID (SetID (\<lambda>b. take 32 (b @ replicate 32 0))
      (L1Tx_zero\<lparr>BatchNum := Some 5, Position := 1, FromIdx := 300, ToIdx := 1,
         Amount := Some 7, DepositAmount := None, ToForgeL1TxsNum := Some 9,
         FromEthAddr := replicate 20 255, Type := TxTypeForceExit,
         TxID := replicate 33 170\<rparr>))"
proof -
  let ?H = "\<lambda>b. take 32 (b @ replicate 32 (0 :: byte))"
  let ?a = "L1Tx_zero\<lparr>BatchNum := Some 5, Position := 1, FromIdx := 0, ToIdx := 0,
         Amount := Some 0, DepositAmount := Some 10\<rparr>"
  let ?b = "L1Tx_zero\<lparr>BatchNum := Some 5, Position := 1, FromIdx := 300, ToIdx := 1,
         Amount := Some 7, DepositAmount := None, ToForgeL1TxsNum := Some 9,
         FromEthAddr := replicate 20 255, Type := TxTypeForceExit,
         TxID := replicate 33 170\<rparr>"
  have len1: "length (TxID ?a) = TxIDLen" and len2: "length (TxID ?b) = TxIDLen"
    by (simp_all add: L1Tx_zero_def TxIDLen_def)
  have h: "32 \<le> length (?H b)" for b
    by simp
  have uo: "UserOrigin ?a = UserOrigin ?b" and pos: "Position ?a = Position ?b"
    by (simp_all add: L1Tx_zero_def)
  have num: "if UserOrigin ?a then ToForgeL1TxsNum ?a = ToForgeL1TxsNum ?b
         else BatchNum ?a = BatchNum ?b"
    by (simp add: L1Tx_zero_def)
  show ?thesis
    by (rule SetID_TxID_pure [OF len1 len2 h uo pos num])
qed

subsection \<open>Decoding an L1 user transaction\<close>

text \<open>
  C2. \<open>L1UserTxFromBytes\<close> fails with the length error on every input that is not 78
  bytes long, and on 78 bytes it returns the transaction with \<open>FromEthAddr\<close> the bytes
  \<open>[0:20]\<close>, \<open>FromBJJ\<close> the bytes \<open>[20:52]\<close> (their order swapped), \<open>FromIdx\<close> the
  big-endian number of \<open>[52:58]\<close>, \<open>DepositAmount\<close> the Float40 of \<open>[58:63]\<close>,
  \<open>Amount\<close> the Float40 of \<open>[63:68]\<close> and \<open>ToIdx\<close> the big-endian number of
  \<open>[72:78]\<close>; the bytes \<open>[68:72]\<close> are not read.
\<close>

theorem L1UserTxFromBytes_layout:
  "L1UserTxFromBytes b =
     (if length b \<noteq> 78 then Inl (ErrL1TxBytesLength (length b))
      else Inr (L1Tx_zero\<lparr>UserOrigin := True,
             FromEthAddr := take 20 b,
             FromBJJ := SwapEndianness (take 32 (drop 20 b)),
             FromIdx := of_nat (be_nat (take 6 (drop 52 b))),
             DepositAmount :=
               Some (int (unat (take_bit 35 (Float40FromBytes (take 5 (drop 58 b)))))
                     * 10 ^ unat (drop_bit 35 (Float40FromBytes (take 5 (drop 58 b))))),
             Amount :=
               Some (int (unat (take_bit 35 (Float40FromBytes (take 5 (drop 63 b)))))
                     * 10 ^ unat (drop_bit 35 (Float40FromBytes (take 5 (drop 63 b))))),
             ToIdx := of_nat (be_nat (take 6 (drop 72 b)))\<rparr>))"
  by (rule L1UserTxFromBytes_eq)

theorem L1UserTxFromBytes_layout_witness:
  "L1UserTxFromBytes (replicate 52 0 @ [0, 0, 0, 0, 1, 0] @ [0xF4, 0, 0, 0, 0]
       @ [0, 0, 0, 0, 7] @ replicate 4 0 @ [0, 0, 0, 0, 1, 1])
   = Inr (L1Tx_zero\<lparr>UserOrigin := True, FromIdx := 256,
            DepositAmount := Some (2 ^ 34 * 10 ^ 30), Amount := Some 7, ToIdx := 257\<rparr>)
   \<and> L1UserTxFromBytes (replicate 68 0) = Inl (ErrL1TxBytesLength 68)"
  using L1UserTxFromBytes_layout [of "replicate 52 0 @ [0, 0, 0, 0, 1, 0] @ [0xF4, 0, 0, 0, 0]
       @ [0, 0, 0, 0, 7] @ replicate 4 0 @ [0, 0, 0, 0, 1, 1]"]
    L1UserTxFromBytes_layout [of "replicate 68 0"]
  by (simp add: replicate_numeral be_nat_def Float40FromBytes_def SwapEndianness_def
      L1Tx_zero_def AddressLength_def)

text \<open>
  C3. On every input that passes the length check, each slice expression of
  \<open>L1UserTxFromBytes\<close> is within bounds, the one of \<open>ToIdx\<close> at \<open>[72:78]\<close> too, and the
  function returns a transaction; on no input at all is its failure a panic.
\<close>

theorem L1UserTxFromBytes_total:
  "(length b = RollupConstL1UserTotalBytes \<longrightarrow>
      (\<exists>tx. L1UserTxFromBytes b = Inr tx)
      \<and> slice b 0 20 \<noteq> None \<and> slice b 20 52 \<noteq> None \<and> slice b 52 58 \<noteq> None
      \<and> slice b 58 63 \<noteq> None \<and> slice b 63 68 \<noteq> None \<and> slice b 72 78 \<noteq> None)
   \<and> (\<forall>e. L1UserTxFromBytes b = Inl e \<longrightarrow> \<not> is_panic e)"
  by (simp add: L1UserTxFromBytes_eq RollupConstL1UserTotalBytes_def slice_def)

theorem L1UserTxFromBytes_total_witness:
  "length (replicate 78 (255 :: byte)) = RollupConstL1UserTotalBytes
   \<and> (\<exists>tx. L1UserTxFromBytes (replicate 78 255) = Inr tx)
   \<and> slice (replicate 78 (255 :: byte)) 72 78 = Some (replicate 6 255)"
proof -
  have len: "length (replicate 78 (255 :: byte)) = RollupConstL1UserTotalBytes"
    by (simp add: RollupConstL1UserTotalBytes_def)
  from L1UserTxFromBytes_total [of "replicate 78 255"] len show ?thesis
    by (simp add: slice_def)
qed

subsection \<open>Decoding an L1 coordinator transaction\<close>

text \<open>
  C10. Every transaction that \<open>L1CoordinatorTxFromBytes\<close> returns has \<open>UserOrigin\<close>
  false and \<open>Amount\<close> and \<open>DepositAmount\<close> zero; its \<open>FromEthAddr\<close> is the address
  recovered from the signature when the first byte \<open>v\<close> is greater than zero, and
  \<open>RollupConstEthAddressInternalOnly\<close> when \<open>v\<close> is zero.
\<close>

theorem L1CoordinatorTxFromBytes_post:
  assumes "L1CoordinatorTxFromBytes crypto RollupConstEthAddressInternalOnly b chainID tokamakAddress = Inr tx"
  shows "\<not> UserOrigin tx \<and> Amount tx = Some 0 \<and> DepositAmount tx = Some 0
       \<and> (if 0 < uint (b ! 0) then
            (\<exists>c h pubKeyBytes pubKey.
               chainID = Some c
             \<and> HashToSign crypto (SwapEndianness (take 32 (drop 65 b)))
                  (ucast (BigInt_Uint64 c)) tokamakAddress = Inr h
             \<and> Ecrecover crypto h (take 32 (drop 33 b) @ take 32 (drop 1 b) @ [b ! 0 - 27])
                  = Inr pubKeyBytes
             \<and> UnmarshalPubkey crypto pubKeyBytes = Inr pubKey
             \<and> FromEthAddr tx = PubkeyToAddress crypto pubKey)
          else FromEthAddr tx = RollupConstEthAddressInternalOnly)"
proof -
  have len: "length b = 101"
  proof (rule ccontr)
    assume "length b \<noteq> 101"
    then have "L1CoordinatorTxFromBytes crypto RollupConstEthAddressInternalOnly b chainID tokamakAddress
        = Inl (ErrL1CoordinatorTxBytesLength (length b))"
      by (simp add: L1CoordinatorTxFromBytes_def RollupConstL1CoordinatorTotalBytes_def)
    with assms show False
      by simp
  qed
  from assms show ?thesis
    unfolding L1CoordinatorTxFromBytes_eq [OF len]
    by (auto simp: Let_def non_nil_def ok_then_def uint_byte_pos_iff
        split: option.splits sum.splits if_splits)
qed

theorem L1CoordinatorTxFromBytes_post_witness:
  "L1CoordinatorTxFromBytes
      \<lparr>HashToSign = (\<lambda>bjj chainID addr. Inr (bjj @ addr)),
       Ecrecover = (\<lambda>h sig. Inr (sig @ h)),
       UnmarshalPubkey = (\<lambda>pk. Inr pk),
       PubkeyToAddress = (\<lambda>pk. take 20 (rev pk))\<rparr>
      (replicate 20 255) (28 # replicate 100 0) (Some 1) (replicate 20 9)
    = Inr (L1Tx_zero\<lparr>UserOrigin := False, Amount := Some 0, DepositAmount := Some 0,
             FromEthAddr := replicate 20 9\<rparr>)
   \<and> 0 < uint ((28 # replicate 100 (0 :: byte)) ! 0)
   \<and> \<not> UserOrigin (L1Tx_zero\<lparr>UserOrigin := False, Amount := Some 0,
           DepositAmount := Some 0, FromEthAddr := replicate 20 9\<rparr>)"
proof -
  let ?crypto = "\<lparr>HashToSign = (\<lambda>bjj (chainID :: 16 word) addr. Inr (bjj @ addr)),
       Ecrecover = (\<lambda>h sig. Inr (sig @ h)),
       UnmarshalPubkey = (\<lambda>pk. Inr pk),
       PubkeyToAddress = (\<lambda>pk :: byte list. take 20 (rev pk))\<rparr>"
  let ?tx = "L1Tx_zero\<lparr>UserOrigin := False, Amount := Some 0, DepositAmount := Some 0,
             FromEthAddr := replicate 20 (9 :: byte)\<rparr>"
  have len: "length (28 # replicate 100 (0 :: byte)) = 101"
    by simp
  have ok: "L1CoordinatorTxFromBytes ?crypto (replicate 20 255)
      (28 # replicate 100 0) (Some 1) (replicate 20 9) = Inr ?tx"
    by (simp add: L1CoordinatorTxFromBytes_eq [OF len] non_nil_def ok_then_def
        SwapEndianness_def L1Tx_zero_def)
  from L1CoordinatorTxFromBytes_post [OF ok] ok show ?thesis
    by simp
qed

subsection \<open>Creating an account twice\<close>

text \<open>
  C9. \<open>CreateAccount\<close> fails with \<open>ErrAccountAlreadyExists\<close> when an account is present at
  the index, and leaves the database as it was: \<open>GetAccount\<close> still returns the account
  created before. At a fresh index it succeeds, and \<open>GetAccount\<close> returns the new account.
\<close>

theorem CreateAccount_duplicate:
  "(kv sdb idx = Some a \<longrightarrow>
      CreateAccount sdb idx account = (Inl ErrAccountAlreadyExists, sdb)
    \<and> GetAccount (snd (CreateAccount sdb idx account)) idx = Inr a)
 \<and> (kv sdb idx = None \<longrightarrow>
      (\<exists>p. fst (CreateAccount sdb idx account) = Inr p)
    \<and> GetAccount (snd (CreateAccount sdb idx account)) idx = Inr account)"
  by (simp add: CreateAccount_def GetAccount_def)

theorem CreateAccount_duplicate_witness:
  "CreateAccount \<lparr>NLevels = 0, kv = Map.empty, accountTree = Map.empty\<rparr> 256
      \<lparr>Idx = 256, BatchNum = 0, BJJ = replicate 32 1, Sign = False, Ay = None,
       EthAddr = replicate 20 2, Nonce = 0, Balance = Some 1000\<rparr>
     = (Inr EmptyProof,
        \<lparr>NLevels = 0,
         kv = [256 \<mapsto> \<lparr>Idx = 256, BatchNum = 0, BJJ = replicate 32 1, Sign = False,
                 Ay = None, EthAddr = replicate 20 2, Nonce = 0, Balance = Some 1000\<rparr>],
         accountTree = Map.empty\<rparr>)
   \<and> CreateAccount
        \<lparr>NLevels = 0,
         kv = [256 \<mapsto> \<lparr>Idx = 256, BatchNum = 0, BJJ = replicate 32 1, Sign = False,
                 Ay = None, EthAddr = replicate 20 2, Nonce = 0, Balance = Some 1000\<rparr>],
         accountTree = Map.empty\<rparr> 256
        \<lparr>Idx = 257, BatchNum = 0, BJJ = replicate 32 1, Sign = False, Ay = None,
         EthAddr = replicate 20 3, Nonce = 1, Balance = Some 1000\<rparr>
     = (Inl ErrAccountAlreadyExists,
        \<lparr>NLevels = 0,
         kv = [256 \<mapsto> \<lparr>Idx = 256, BatchNum = 0, BJJ = replicate 32 1, Sign = False,
                 Ay = None, EthAddr = replicate 20 2, Nonce = 0, Balance = Some 1000\<rparr>],
         accountTree = Map.empty\<rparr>)
   \<and> GetAccount
        \<lparr>NLevels = 0,
         kv = [256 \<mapsto> \<lparr>Idx = 256, BatchNum = 0, BJJ = replicate 32 1, Sign = False,
                 Ay = None, EthAddr = replicate 20 2, Nonce = 0, Balance = Some 1000\<rparr>],
         accountTree = Map.empty\<rparr> 256
     = Inr \<lparr>Idx = 256, BatchNum = 0, BJJ = replicate 32 1, Sign = False, Ay = None,
            EthAddr = replicate 20 2, Nonce = 0, Balance = Some 1000\<rparr>"
proof -
  let ?a0 = "\<lparr>Idx = 256, BatchNum = 0, BJJ = replicate 32 (1 :: byte), Sign = False,
             Ay = None, EthAddr = replicate 20 (2 :: byte), Nonce = 0, Balance = Some 1000\<rparr>"
  let ?a1 = "\<lparr>Idx = 257, BatchNum = 0, BJJ = replicate 32 (1 :: byte), Sign = False,
             Ay = None, EthAddr = replicate 20 (3 :: byte), Nonce = 1, Balance = Some 1000\<rparr>"
  let ?s1 = "\<lparr>NLevels = 0, kv = [256 \<mapsto> ?a0], accountTree = Map.empty\<rparr>"
  have first: "CreateAccount \<lparr>NLevels = 0, kv = Map.empty, accountTree = Map.empty\<rparr> 256 ?a0
      = (Inr EmptyProof, ?s1)"
    by (simp add: CreateAccount_def)
  have present: "kv ?s1 256 = Some ?a0"
    by simp
  have dup: "CreateAccount ?s1 256 ?a1 = (Inl ErrAccountAlreadyExists, ?s1)"
    and get: "GetAccount (snd (CreateAccount ?s1 256 ?a1)) 256 = Inr ?a0"
    using CreateAccount_duplicate [of ?s1 256 ?a0 ?a1] present by blast+
  from get have "GetAccount ?s1 256 = Inr ?a0"
    by (simp only: dup snd_conv)
  with first dup show ?thesis
    by blast
qed

end
